theory Spec2Isabelle
  imports Main "HOL-Library.Multiset" "HOL-Library.Sublist"
begin

section \<open>Doctor discovery: filtering, sorting, suggestions and URL state\<close>

text \<open>
  A shallow embedding of the view-model logic of
  \<^verbatim>\<open>src/Desktop/bajaj/src/components/DoctorDiscovery.tsx\<close>: the hydration of the filter
  state from the query string, its persistence back to the query string, the memoised
  \<^verbatim>\<open>filteredDoctors\<close> and \<^verbatim>\<open>suggestions\<close> views and the specialty chip handler.

  Conventions of the model.
  \<^item> A JavaScript string is a \<^typ>\<open>string\<close>, a list of 8-bit characters. The model is
    exact on ASCII text; \<^verbatim>\<open>toLowerCase\<close> and the white space skipped by
    \<^verbatim>\<open>parseInt\<close> are modelled on ASCII only.
  \<^item> A JavaScript number that results from \<^verbatim>\<open>parseInt\<close> or from subtracting two such
    numbers is an \<^typ>\<open>int option\<close>, where \<^term>\<open>None\<close> is \<^verbatim>\<open>NaN\<close>. This is exact for
    integers of magnitude up to \<open>2^53\<close>, where doubles represent integers exactly and the
    sign of a difference is exact.
  \<^item> None of the modelled expressions can throw on values of the declared TypeScript
    types, so the functions are total and have no error result.
\<close>

subsection \<open>Data model\<close>

record Specialty =
  name :: string

record Address =
  locality :: string
  city :: string
  address_line1 :: string
  location :: string
  logo_url :: string

record Clinic =
  name :: string
  address :: Address

record Doctor =
  id :: string
  name :: string
  name_initials :: string
  photo :: string
  doctor_introduction :: string
  specialities :: "Specialty list"
  fees :: string
  experience :: string
  languages :: "string list"
  clinic :: Clinic
  video_consult :: bool
  in_clinic :: bool

record DoctorSuggestion =
  id :: string
  name :: string
  specialities :: "Specialty list"
  photo :: string

text \<open>
  The four \<^verbatim>\<open>useState\<close> cells of the component. The TypeScript types of
  \<^verbatim>\<open>consultationType\<close> and \<^verbatim>\<open>sortBy\<close> are unions of string literals, but hydration
  fills them with an unchecked cast (\<^verbatim>\<open>as 'video' | 'clinic'\<close>), so at run time they hold
  arbitrary strings, and that is their type here.
\<close>

record FilterState =
  nameFilter :: string
  consultationType :: string
  selectedSpecialties :: "string list"
  sortBy :: string

subsection \<open>String builtins\<close>

text \<open>\<^verbatim>\<open>String.prototype.toLowerCase\<close>, on the ASCII letters.\<close>

definition toLowerCase_char :: "char \<Rightarrow> char" where
  "toLowerCase_char c =
     (case map_of (zip ''ABCDEFGHIJKLMNOPQRSTUVWXYZ'' ''abcdefghijklmnopqrstuvwxyz'') c of
        Some l \<Rightarrow> l
      | None \<Rightarrow> c)"

definition toLowerCase :: "string \<Rightarrow> string" where
  "toLowerCase s = map toLowerCase_char s"

text \<open>\<^verbatim>\<open>s.includes(searchString)\<close>: \<open>searchString\<close> occurs in \<open>s\<close> as a contiguous block.\<close>

definition String_includes :: "string \<Rightarrow> string \<Rightarrow> bool" where
  "String_includes s searchString = sublist searchString s"

text \<open>
  \<^verbatim>\<open>s.split(sep)\<close> and \<^verbatim>\<open>xs.join(sep)\<close> for a one-character separator. Splitting the
  empty string gives one empty segment; empty segments are kept. A character other than
  the separator goes to the front of the first segment of the rest; the rest always
  has a first segment, so the \<open>[]\<close> branch is never taken.
\<close>

fun split :: "char \<Rightarrow> string \<Rightarrow> string list" where
  "split sep [] = ['''']"
| "split sep (c # cs) =
     (if c = sep then [] # split sep cs
      else (case split sep cs of
              [] \<Rightarrow> [c] # []
            | r # rs \<Rightarrow> (c # r) # rs))"

fun join :: "char \<Rightarrow> string list \<Rightarrow> string" where
  "join sep [] = []"
| "join sep [x] = x"
| "join sep (x # y # ys) = x @ sep # join sep (y # ys)"

subsection \<open>Numbers: \<^verbatim>\<open>parseInt\<close> and subtraction\<close>

definition isWhiteSpace :: "char \<Rightarrow> bool" where
  "isWhiteSpace c = (c \<in> set [CHR 0x09, CHR 0x0A, CHR 0x0B, CHR 0x0C, CHR 0x0D, CHR '' ''])"

definition digitValue :: "char \<Rightarrow> nat option" where
  "digitValue c =
     map_of (zip ''0123456789abcdefghijklmnopqrstuvwxyz'' [0 ..< 36] @
             zip ''ABCDEFGHIJKLMNOPQRSTUVWXYZ'' [10 ..< 36]) c"

definition radixDigit :: "nat \<Rightarrow> char \<Rightarrow> nat option" where
  "radixDigit R c =
     (case digitValue c of
        None \<Rightarrow> None
      | Some v \<Rightarrow> if v < R then Some v else None)"

definition isRadixDigit :: "nat \<Rightarrow> char \<Rightarrow> bool" where
  "isRadixDigit R c = (radixDigit R c \<noteq> None)"

definition digitsValue :: "nat \<Rightarrow> string \<Rightarrow> nat" where
  "digitsValue R Z = foldl (\<lambda>acc c. acc * R + (case radixDigit R c of Some v \<Rightarrow> v | None \<Rightarrow> 0)) 0 Z"

text \<open>
  \<^verbatim>\<open>parseInt(string)\<close> with no radix argument, after ECMAScript: leading white space is
  skipped, one sign is read, a \<^verbatim>\<open>0x\<close> or \<^verbatim>\<open>0X\<close> prefix selects radix 16, the longest
  run of digits is read, and the result is \<^verbatim>\<open>NaN\<close> when that run is empty. Whatever
  follows the digits is ignored.
\<close>

definition parseInt :: "string \<Rightarrow> int option" where
  "parseInt string =
     (let S = dropWhile isWhiteSpace string;
          sign = (if take 1 S = ''-'' then - 1 else 1 :: int);
          S = (if take 1 S = ''+'' \<or> take 1 S = ''-'' then drop 1 S else S);
          stripPrefix = (take 2 S = ''0x'' \<or> take 2 S = ''0X'');
          R = (if stripPrefix then 16 else 10);
          S = (if stripPrefix then drop 2 S else S);
          Z = takeWhile (isRadixDigit R) S
      in if Z = [] then None else Some (sign * int (digitsValue R Z)))"

text \<open>The \<^verbatim>\<open>-\<close> of two numbers: \<^verbatim>\<open>NaN\<close> when either operand is.\<close>

definition num_sub :: "int option \<Rightarrow> int option \<Rightarrow> int option" where
  "num_sub a b =
     (case a of
        None \<Rightarrow> None
      | Some m \<Rightarrow> (case b of None \<Rightarrow> None | Some n \<Rightarrow> Some (m - n)))"

text \<open>The \<^verbatim>\<open><=\<close> of two numbers: false when either operand is \<^verbatim>\<open>NaN\<close>.\<close>

definition num_le :: "int option \<Rightarrow> int option \<Rightarrow> bool" where
  "num_le a b =
     (case a of
        None \<Rightarrow> False
      | Some m \<Rightarrow> (case b of None \<Rightarrow> False | Some n \<Rightarrow> m \<le> n))"

subsection \<open>\<^verbatim>\<open>Array.prototype.sort\<close>\<close>

text \<open>
  ECMAScript's \<^verbatim>\<open>SortCompare\<close> calls the comparator and reads a \<^verbatim>\<open>NaN\<close> result as
  \<open>+0\<close>. The sort is required to be stable; where the comparator is a consistent
  comparison every conforming engine returns the same array. Where it is not, the
  standard leaves the order to the engine. The model is the classic insertion sort:
  the elements are taken from left to right, and each is moved towards the front of
  the sorted part, past every element that compares greater than it, until one does
  not. \<open>insert_sorted\<close> works on the sorted part in reverse, its last element first, as
  that scan meets it.
\<close>

definition SortCompare :: "('a \<Rightarrow> 'a \<Rightarrow> int option) \<Rightarrow> 'a \<Rightarrow> 'a \<Rightarrow> int" where
  "SortCompare comparefn x y = (case comparefn x y of None \<Rightarrow> 0 | Some v \<Rightarrow> v)"

fun insert_sorted :: "('a \<Rightarrow> 'a \<Rightarrow> int option) \<Rightarrow> 'a \<Rightarrow> 'a list \<Rightarrow> 'a list" where
  "insert_sorted comparefn element [] = [element]"
| "insert_sorted comparefn element (tmp # rest) =
     (if SortCompare comparefn tmp element > 0
      then tmp # insert_sorted comparefn element rest
      else element # tmp # rest)"

definition array_sort :: "('a \<Rightarrow> 'a \<Rightarrow> int option) \<Rightarrow> 'a list \<Rightarrow> 'a list" where
  "array_sort comparefn xs =
     rev (foldl (\<lambda>acc element. insert_sorted comparefn element acc) [] xs)"

subsection \<open>\<^verbatim>\<open>URLSearchParams\<close>\<close>

text \<open>
  The query string as \<^verbatim>\<open>URLSearchParams\<close> presents it: the decoded name/value pairs
  in order. \<^verbatim>\<open>get\<close> returns the first value of a name or \<^verbatim>\<open>null\<close>; \<^verbatim>\<open>set\<close>
  overwrites the first pair of that name and drops the others, or appends a pair. The
  percent-encoding between this list and the text of the URL is the browser's and is
  not modelled: what \<^verbatim>\<open>setSearchParams\<close> stores is what \<^verbatim>\<open>useSearchParams\<close> reads.
\<close>

type_synonym URLSearchParams = "(string \<times> string) list"

definition URLSearchParams_get :: "URLSearchParams \<Rightarrow> string \<Rightarrow> string option" where
  "URLSearchParams_get params k = map_of params k"

fun URLSearchParams_set :: "URLSearchParams \<Rightarrow> string \<Rightarrow> string \<Rightarrow> URLSearchParams" where
  "URLSearchParams_set [] k v = [(k, v)]"
| "URLSearchParams_set (p # ps) k v =
     (if fst p = k then (k, v) # filter (\<lambda>q. fst q \<noteq> k) ps
      else p # URLSearchParams_set ps k v)"

subsection \<open>The component\<close>

text \<open>\<^verbatim>\<open>x || ''\<close> for \<^verbatim>\<open>x\<close> a string or \<^verbatim>\<open>null\<close>: both \<^verbatim>\<open>null\<close> and the empty string are falsy.\<close>

definition or_empty :: "string option \<Rightarrow> string" where
  "or_empty x = (case x of None \<Rightarrow> [] | Some v \<Rightarrow> if v \<noteq> [] then v else [])"

text \<open>
  Lines 90 to 99: the initial values of the four state cells. An array is always truthy,
  so \<^verbatim>\<open>get('specialties')?.split(',') || []\<close> is \<^verbatim>\<open>[]\<close> only when the parameter is
  absent.
\<close>

definition hydrate :: "URLSearchParams \<Rightarrow> FilterState" where
  "hydrate searchParams =
     \<lparr> nameFilter = or_empty (URLSearchParams_get searchParams ''name''),
       consultationType = or_empty (URLSearchParams_get searchParams ''consultationType''),
       selectedSpecialties =
         (case URLSearchParams_get searchParams ''specialties'' of
            None \<Rightarrow> []
          | Some v \<Rightarrow> split CHR '','' v),
       sortBy = or_empty (URLSearchParams_get searchParams ''sortBy'') \<rparr>"

text \<open>Lines 113 to 120: the parameters handed to \<^verbatim>\<open>setSearchParams\<close>.\<close>

definition persist :: "FilterState \<Rightarrow> URLSearchParams" where
  "persist st =
     (let params = [];
          params = (if nameFilter st \<noteq> [] then URLSearchParams_set params ''name'' (nameFilter st)
                    else params);
          params = (if consultationType st \<noteq> []
                    then URLSearchParams_set params ''consultationType'' (consultationType st)
                    else params);
          params = (if length (selectedSpecialties st) \<noteq> 0
                    then URLSearchParams_set params ''specialties''
                           (join CHR '','' (selectedSpecialties st))
                    else params);
          params = (if sortBy st \<noteq> [] then URLSearchParams_set params ''sortBy'' (sortBy st)
                    else params)
      in params)"

text \<open>Lines 132 to 164, one definition for each of the four steps.\<close>

definition applyNameFilter :: "string \<Rightarrow> Doctor list \<Rightarrow> Doctor list" where
  "applyNameFilter q result =
     (if q \<noteq> []
      then filter (\<lambda>doctor. String_includes (toLowerCase (Doctor.name doctor)) (toLowerCase q)) result
      else result)"

definition applyConsultationType :: "string \<Rightarrow> Doctor list \<Rightarrow> Doctor list" where
  "applyConsultationType t result =
     (if t = ''video'' then filter (\<lambda>doctor. video_consult doctor) result
      else if t = ''clinic'' then filter (\<lambda>doctor. in_clinic doctor) result
      else result)"

definition applySpecialties :: "string list \<Rightarrow> Doctor list \<Rightarrow> Doctor list" where
  "applySpecialties sel result =
     (if length sel > 0
      then filter (\<lambda>doctor.
             list_ex (\<lambda>specialty. List.member sel (Specialty.name specialty))
               (Doctor.specialities doctor)) result
      else result)"

definition applySorting :: "string \<Rightarrow> Doctor list \<Rightarrow> Doctor list" where
  "applySorting key result =
     (if key = ''fees''
      then array_sort (\<lambda>a b. num_sub (parseInt (fees a)) (parseInt (fees b))) result
      else if key = ''experience''
      then array_sort (\<lambda>a b. num_sub (parseInt (experience b)) (parseInt (experience a))) result
      else result)"

definition filteredDoctors :: "Doctor list \<Rightarrow> FilterState \<Rightarrow> Doctor list" where
  "filteredDoctors doctors st =
     applySorting (sortBy st)
       (applySpecialties (selectedSpecialties st)
         (applyConsultationType (consultationType st)
           (applyNameFilter (nameFilter st) doctors)))"

text \<open>Lines 167 to 183.\<close>

definition toSuggestion :: "Doctor \<Rightarrow> DoctorSuggestion" where
  "toSuggestion doctor =
     \<lparr> DoctorSuggestion.id = Doctor.id doctor,
       name = Doctor.name doctor,
       specialities = Doctor.specialities doctor,
       photo = Doctor.photo doctor \<rparr>"

definition suggestions :: "Doctor list \<Rightarrow> string \<Rightarrow> DoctorSuggestion list" where
  "suggestions doctors q =
     (if q = [] then []
      else take 5 (map toSuggestion
             (filter (\<lambda>doctor.
                String_includes (toLowerCase (Doctor.name doctor)) (toLowerCase q) \<or>
                list_ex (\<lambda>specialty.
                    String_includes (toLowerCase (Specialty.name specialty)) (toLowerCase q))
                  (Doctor.specialities doctor))
              doctors)))"

text \<open>Lines 349 to 355: the click handler of a specialty chip.\<close>

definition toggleSpecialty :: "string \<Rightarrow> FilterState \<Rightarrow> FilterState" where
  "toggleSpecialty specialty st =
     (if List.member (selectedSpecialties st) specialty
      then st\<lparr>selectedSpecialties := filter (\<lambda>s. s \<noteq> specialty) (selectedSpecialties st)\<rparr>
      else st\<lparr>selectedSpecialties := selectedSpecialties st @ [specialty]\<rparr>)"

subsection \<open>The predicates of the specification\<close>

text \<open>
  The three predicates as section 4.2 of the specification words them, on the run-time
  values of the state: a consultation type other than \<^verbatim>\<open>video\<close> and \<^verbatim>\<open>clinic\<close>
  is an unset one.
\<close>

definition matchesName :: "Doctor \<Rightarrow> string \<Rightarrow> bool" where
  "matchesName record query = sublist (toLowerCase query) (toLowerCase (Doctor.name record))"

definition matchesConsultationType :: "Doctor \<Rightarrow> string \<Rightarrow> bool" where
  "matchesConsultationType record t =
     (if t = ''video'' then video_consult record
      else if t = ''clinic'' then in_clinic record
      else True)"

definition matchesSpecialties :: "Doctor \<Rightarrow> string list \<Rightarrow> bool" where
  "matchesSpecialties record selected =
     (selected = [] \<or>
      set (map Specialty.name (Doctor.specialities record)) \<inter> set selected \<noteq> {})"

definition matchesAll :: "FilterState \<Rightarrow> Doctor \<Rightarrow> bool" where
  "matchesAll st record =
     (matchesName record (nameFilter st) \<and>
      matchesConsultationType record (consultationType st) \<and>
      matchesSpecialties record (selectedSpecialties st))"

text \<open>Section 4.4: a name match, or a specialty whose name contains the query.\<close>

definition matchesSuggestion :: "Doctor \<Rightarrow> string \<Rightarrow> bool" where
  "matchesSuggestion record query =
     (matchesName record query \<or>
      (\<exists>s \<in> set (Doctor.specialities record).
         sublist (toLowerCase query) (toLowerCase (Specialty.name s))))"

definition hasSpecialtyNamed :: "string \<Rightarrow> Doctor \<Rightarrow> bool" where
  "hasSpecialtyNamed n record = (\<exists>s \<in> set (Doctor.specialities record). Specialty.name s = n)"

text \<open>
  Ordered by the parsed key, with the comparison of numbers: a \<^verbatim>\<open>NaN\<close> key is in
  no order with anything.
\<close>

definition orderedByFeeAscending :: "Doctor list \<Rightarrow> bool" where
  "orderedByFeeAscending xs =
     sorted_wrt (\<lambda>a b. num_le (parseInt (fees a)) (parseInt (fees b))) xs"

definition orderedByExperienceDescending :: "Doctor list \<Rightarrow> bool" where
  "orderedByExperienceDescending xs =
     sorted_wrt (\<lambda>a b. num_le (parseInt (experience b)) (parseInt (experience a))) xs"

text \<open>
  The data model of the specification makes \<^verbatim>\<open>fee\<close> and \<^verbatim>\<open>experienceYears\<close>
  string-encoded integers; \<open>allParse\<close> says so of one field of every record of a list.
\<close>

definition allParse :: "(Doctor \<Rightarrow> string) \<Rightarrow> Doctor list \<Rightarrow> bool" where
  "allParse field xs = list_all (\<lambda>d. parseInt (field d) \<noteq> None) xs"


subsection \<open>Sample data\<close>

definition defaultState :: FilterState where
  "defaultState =
     \<lparr> nameFilter = [], consultationType = [], selectedSpecialties = [], sortBy = [] \<rparr>"

definition sortState :: "string \<Rightarrow> FilterState" where
  "sortState key = defaultState\<lparr>sortBy := key\<rparr>"

definition sample_state :: FilterState where
  "sample_state =
     \<lparr> nameFilter = ''RA'', consultationType = ''clinic'',
       selectedSpecialties = [''ENT'', ''Dentist''], sortBy = [] \<rparr>"


definition malformed_params :: URLSearchParams where
  "malformed_params = [(''consultationType'', ''phone''), (''sortBy'', ''rating'')]"

definition sample_doctor ::
  "string \<Rightarrow> string \<Rightarrow> string list \<Rightarrow> string \<Rightarrow> string \<Rightarrow> bool \<Rightarrow> bool \<Rightarrow> Doctor" where
  "sample_doctor i n specs f e v c =
     \<lparr> Doctor.id = i, name = n, name_initials = [], photo = [], doctor_introduction = [],
       specialities = map (\<lambda>s. \<lparr> Specialty.name = s \<rparr>) specs, fees = f, experience = e,
       languages = [],
       clinic = \<lparr> Clinic.name = [],
                  address = \<lparr> locality = [], city = [], address_line1 = [], location = [],
                              logo_url = [] \<rparr> \<rparr>,
       video_consult = v, in_clinic = c \<rparr>"

definition sample_doctors :: "Doctor list" where
  "sample_doctors =
     [sample_doctor ''1'' ''Dr. Asha Rao'' [''Dentist''] ''500'' ''5'' True False,
      sample_doctor ''2'' ''Dr. Bala'' [''ENT''] ''200'' ''20'' True True,
      sample_doctor ''3'' ''Dr. Rashid'' [''Dentist'', ''ENT''] ''800'' ''1'' False True,
      sample_doctor ''4'' ''Dr. Chitra'' [''''] ''300'' ''7'' True True,
      sample_doctor ''5'' ''Dr. Dev'' [] ''100'' ''3'' True True,
      sample_doctor ''6'' ''Dr. Esha'' [''Dentist''] ''250'' ''9'' False False,
      sample_doctor ''7'' ''Dr. Farid'' [''Diabetes, Thyroid''] ''650'' ''12'' True False]"

definition fee_doctors :: "Doctor list" where
  "fee_doctors = map (\<lambda>f. sample_doctor f [] [] f [] False False) [''500'', ''200'', ''800'']"

definition experience_doctors :: "Doctor list" where
  "experience_doctors = map (\<lambda>e. sample_doctor e [] [] [] e False False) [''5'', ''20'', ''1'']"

definition unparsable_fee_doctors :: "Doctor list" where
  "unparsable_fee_doctors =
     map (\<lambda>f. sample_doctor f [] [] f [] False False) [''5'', ''abc'', ''3'']"

definition mixed_doctors :: "Doctor list" where
  "mixed_doctors =
     [sample_doctor ''1'' ''Zed'' [] ''abc'' ''many'' True True,
      sample_doctor ''2'' ''Dr. A'' [] ''500'' ''4'' True True,
      sample_doctor ''3'' ''Dr. B'' [] ''200'' ''9'' True True]"

definition dr_state :: "string \<Rightarrow> FilterState" where
  "dr_state key = defaultState\<lparr>nameFilter := ''dr'', sortBy := key\<rparr>"

section \<open>Properties\<close>

subsection \<open>The builtins\<close>

lemma String_includes_iff: "String_includes s q \<longleftrightarrow> (\<exists>ps ss. s = ps @ q @ ss)"
  by (simp add: String_includes_def sublist_def)

lemma toLowerCase_Nil: "toLowerCase [] = []"
  by (simp add: toLowerCase_def)




text \<open>The sort returns a permutation of its argument, whatever the comparator.\<close>

lemma mset_insert_sorted: "mset (insert_sorted c x ys) = add_mset x (mset ys)"
  by (induction ys) auto

lemma set_insert_sorted: "set (insert_sorted c x ys) = insert x (set ys)"
  by (induction ys) auto

lemma mset_foldl_insert:
  "mset (foldl (\<lambda>acc element. insert_sorted c element acc) acc xs) = mset acc + mset xs"
  by (induction xs arbitrary: acc) (auto simp: mset_insert_sorted)

lemma mset_array_sort: "mset (array_sort c xs) = mset xs"
  by (simp add: array_sort_def mset_foldl_insert)

lemma set_array_sort: "set (array_sort c xs) = set xs"
  using mset_array_sort [of c xs] by (metis set_mset_mset)

text \<open>
  Where the comparator is the difference of an integer key on the elements at hand, the
  result is ordered by that key.
\<close>

lemma sorted_insert_sorted:
  assumes cmp: "\<And>a b. a \<in> A \<Longrightarrow> b \<in> A \<Longrightarrow> SortCompare c a b = f a - f b"
    and x: "x \<in> A"
  shows "set ys \<subseteq> A \<Longrightarrow> sorted_wrt (\<lambda>a b. f b \<le> f a) ys
         \<Longrightarrow> sorted_wrt (\<lambda>a b. f b \<le> f a) (insert_sorted c x ys)"
proof (induction ys)
  case Nil
  then show ?case by simp
next
  case (Cons y ys)
  have y: "y \<in> A" using Cons.prems(1) by simp
  show ?case
  proof (cases "SortCompare c y x > 0")
    case True
    then have "f x \<le> f y" using cmp [OF y x] by simp
    moreover have "sorted_wrt (\<lambda>a b. f b \<le> f a) (insert_sorted c x ys)"
      using Cons by simp
    ultimately show ?thesis using True Cons.prems(2) by (auto simp: set_insert_sorted)
  next
    case False
    then have "f y \<le> f x" using cmp [OF y x] by simp
    moreover have "\<forall>z\<in>set ys. f z \<le> f y" using Cons.prems(2) by simp
    ultimately show ?thesis using False Cons.prems(2) by fastforce
  qed
qed

lemma sorted_foldl_insert:
  assumes cmp: "\<And>a b. a \<in> A \<Longrightarrow> b \<in> A \<Longrightarrow> SortCompare c a b = f a - f b"
  shows "set xs \<subseteq> A \<Longrightarrow> set acc \<subseteq> A \<Longrightarrow> sorted_wrt (\<lambda>a b. f b \<le> f a) acc
         \<Longrightarrow> sorted_wrt (\<lambda>a b. f b \<le> f a)
               (foldl (\<lambda>acc element. insert_sorted c element acc) acc xs)"
proof (induction xs arbitrary: acc)
  case Nil
  then show ?case by simp
next
  case (Cons x xs)
  have "sorted_wrt (\<lambda>a b. f b \<le> f a) (insert_sorted c x acc)"
    using sorted_insert_sorted [of A c f x acc] cmp Cons.prems by simp
  moreover have "set (insert_sorted c x acc) \<subseteq> A"
    using Cons.prems by (simp add: set_insert_sorted)
  ultimately show ?case using Cons.IH Cons.prems(1) by simp
qed

lemma sorted_array_sort:
  assumes "\<And>a b. a \<in> set xs \<Longrightarrow> b \<in> set xs \<Longrightarrow> SortCompare c a b = f a - f b"
  shows "sorted_wrt (\<lambda>a b. f a \<le> f b) (array_sort c xs)"
proof -
  have "sorted_wrt (\<lambda>a b. f b \<le> f a)
          (foldl (\<lambda>acc element. insert_sorted c element acc) [] xs)"
    using sorted_foldl_insert [of "set xs" c f xs "[]"] assms by simp
  then show ?thesis by (simp add: array_sort_def sorted_wrt_rev)
qed

lemma SortCompare_keys:
  assumes "key a = Some m" and "key b = Some n"
  shows "SortCompare (\<lambda>x y. num_sub (key x) (key y)) a b = m - n"
    and "SortCompare (\<lambda>x y. num_sub (key y) (key x)) a b = n - m"
  using assms by (simp_all add: SortCompare_def num_sub_def)

lemma allParse_D: "allParse field xs \<Longrightarrow> d \<in> set xs \<Longrightarrow> \<exists>m. parseInt (field d) = Some m"
  by (auto simp: allParse_def list_all_iff)

lemma allParse_set: "set xs = set ys \<Longrightarrow> allParse field xs = allParse field ys"
  by (simp add: allParse_def list_all_iff)

subsection \<open>The steps of the view\<close>

lemma applyNameFilter_filter: "applyNameFilter q xs = filter (\<lambda>d. matchesName d q) xs"
  by (auto simp: applyNameFilter_def matchesName_def String_includes_def toLowerCase_Nil)

lemma applyConsultationType_filter:
  "applyConsultationType t xs = filter (\<lambda>d. matchesConsultationType d t) xs"
  by (auto simp: applyConsultationType_def matchesConsultationType_def)

lemma specialty_test:
  "list_ex (\<lambda>specialty. List.member sel (Specialty.name specialty)) (Doctor.specialities d)
     \<longleftrightarrow> set (map Specialty.name (Doctor.specialities d)) \<inter> set sel \<noteq> {}"
  by (auto simp: list_ex_iff)

lemma applySpecialties_filter:
  "applySpecialties sel xs = filter (\<lambda>d. matchesSpecialties d sel) xs"
proof (cases "sel = []")
  case True
  then show ?thesis by (simp add: applySpecialties_def matchesSpecialties_def)
next
  case False
  then have "applySpecialties sel xs =
      filter (\<lambda>d. list_ex (\<lambda>specialty. List.member sel (Specialty.name specialty))
                    (Doctor.specialities d)) xs"
    by (simp add: applySpecialties_def)
  also have "\<dots> = filter (\<lambda>d. matchesSpecialties d sel) xs"
    using False unfolding matchesSpecialties_def specialty_test by simp
  finally show ?thesis .
qed

lemma filters_compose:
  "applySpecialties (selectedSpecialties st)
     (applyConsultationType (consultationType st) (applyNameFilter (nameFilter st) ds))
   = filter (matchesAll st) ds"
proof -
  have "matchesAll st = (\<lambda>d. matchesName d (nameFilter st) \<and>
                             matchesConsultationType d (consultationType st) \<and>
                             matchesSpecialties d (selectedSpecialties st))"
    by (rule ext) (simp add: matchesAll_def)
  then show ?thesis
    by (simp add: applyNameFilter_filter applyConsultationType_filter applySpecialties_filter)
qed

lemma mset_applySorting: "mset (applySorting k xs) = mset xs"
  by (simp add: applySorting_def mset_array_sort)

lemma set_filteredDoctors: "set (filteredDoctors ds st) = {d \<in> set ds. matchesAll st d}"
proof -
  have "set (filteredDoctors ds st) = set_mset (mset (filteredDoctors ds st))" by simp
  also have "\<dots> = set_mset (mset (filter (matchesAll st) ds))"
    unfolding filteredDoctors_def filters_compose by (simp only: mset_applySorting)
  finally show ?thesis by simp
qed

lemma fees_sorted:
  assumes "allParse fees xs"
  shows "orderedByFeeAscending (applySorting ''fees'' xs)"
proof -
  let ?key = "\<lambda>d. parseInt (fees d)"
  let ?c = "\<lambda>a b. num_sub (?key a) (?key b)"
  let ?f = "\<lambda>d. the (?key d)"
  have cmp: "SortCompare ?c a b = ?f a - ?f b" if ab: "a \<in> set xs" "b \<in> set xs" for a b
  proof -
    obtain m n where "?key a = Some m" "?key b = Some n"
      using allParse_D [OF assms] ab by blast
    then show ?thesis using SortCompare_keys(1) [of ?key a m b n] by simp
  qed
  have "sorted_wrt (\<lambda>a b. ?f a \<le> ?f b) (array_sort ?c xs)"
    by (rule sorted_array_sort) (rule cmp)
  moreover have "num_le (?key a) (?key b)"
    if ab: "a \<in> set (array_sort ?c xs)" "b \<in> set (array_sort ?c xs)" and le: "?f a \<le> ?f b"
    for a b
  proof -
    have "a \<in> set xs" "b \<in> set xs"
      using ab by (simp_all add: set_array_sort)
    then obtain m n where "?key a = Some m" "?key b = Some n"
      using allParse_D [OF assms] by blast
    then show ?thesis using le by (simp add: num_le_def)
  qed
  ultimately have "sorted_wrt (\<lambda>a b. num_le (?key a) (?key b)) (array_sort ?c xs)"
    by (rule sorted_wrt_mono_rel [rotated])
  then show ?thesis by (simp add: orderedByFeeAscending_def applySorting_def)
qed

lemma experience_sorted:
  assumes "allParse experience xs"
  shows "orderedByExperienceDescending (applySorting ''experience'' xs)"
proof -
  let ?key = "\<lambda>d. parseInt (experience d)"
  let ?c = "\<lambda>a b. num_sub (?key b) (?key a)"
  let ?f = "\<lambda>d. - the (?key d)"
  have cmp: "SortCompare ?c a b = ?f a - ?f b" if ab: "a \<in> set xs" "b \<in> set xs" for a b
  proof -
    obtain m n where "?key a = Some m" "?key b = Some n"
      using allParse_D [OF assms] ab by blast
    then show ?thesis using SortCompare_keys(2) [of ?key a m b n] by simp
  qed
  have "sorted_wrt (\<lambda>a b. ?f a \<le> ?f b) (array_sort ?c xs)"
    by (rule sorted_array_sort) (rule cmp)
  moreover have "num_le (?key b) (?key a)"
    if ab: "a \<in> set (array_sort ?c xs)" "b \<in> set (array_sort ?c xs)" and le: "?f a \<le> ?f b"
    for a b
  proof -
    have "a \<in> set xs" "b \<in> set xs"
      using ab by (simp_all add: set_array_sort)
    then obtain m n where "?key a = Some m" "?key b = Some n"
      using allParse_D [OF assms] by blast
    then show ?thesis using le by (simp add: num_le_def)
  qed
  ultimately have "sorted_wrt (\<lambda>a b. num_le (?key b) (?key a)) (array_sort ?c xs)"
    by (rule sorted_wrt_mono_rel [rotated])
  then show ?thesis by (simp add: orderedByExperienceDescending_def applySorting_def)
qed

lemma applySpecialties_set:
  assumes eq: "set a = set b"
  shows "applySpecialties a xs = applySpecialties b xs"
proof -
  have "a = [] \<longleftrightarrow> b = []" using eq by (metis set_empty)
  then have "matchesSpecialties d a = matchesSpecialties d b" for d
    using eq by (simp add: matchesSpecialties_def)
  then show ?thesis by (simp add: applySpecialties_filter)
qed

subsection \<open>The URL state\<close>



lemma toggle_fields:
  "nameFilter (toggleSpecialty s st) = nameFilter st"
  "consultationType (toggleSpecialty s st) = consultationType st"
  "sortBy (toggleSpecialty s st) = sortBy st"
  by (simp_all add: toggleSpecialty_def)

lemma toggle_twice_set:
  "set (selectedSpecialties (toggleSpecialty s (toggleSpecialty s st))) =
   set (selectedSpecialties st)"
  by (auto simp: toggleSpecialty_def)

section \<open>The claims\<close>

text \<open>
  Claim C1. For every record list and every filter state, the filtered view holds exactly
  the records of the store that satisfy the conjunction of the name, consultation type
  and specialty predicates, each as often as the store holds it, so no record that fails
  a predicate is in the view; and when no sort is selected the view is the store
  filtered in its own order.
\<close>

theorem filteredDoctors_conjunction_stable:
  "mset (filteredDoctors ds st) = mset (filter (matchesAll st) ds) \<and>
   (sortBy st \<noteq> ''fees'' \<and> sortBy st \<noteq> ''experience'' \<longrightarrow>
      filteredDoctors ds st = filter (matchesAll st) ds)"
proof
  show "mset (filteredDoctors ds st) = mset (filter (matchesAll st) ds)"
    unfolding filteredDoctors_def filters_compose by (rule mset_applySorting)
  show "sortBy st \<noteq> ''fees'' \<and> sortBy st \<noteq> ''experience'' \<longrightarrow>
      filteredDoctors ds st = filter (matchesAll st) ds"
    unfolding filteredDoctors_def filters_compose by (simp add: applySorting_def)
qed

theorem filteredDoctors_conjunction_stable_witness:
  "sortBy sample_state \<noteq> ''fees'' \<and> sortBy sample_state \<noteq> ''experience'' \<and>
   filteredDoctors sample_doctors sample_state = filter (matchesAll sample_state) sample_doctors \<and>
   map Doctor.id (filteredDoctors sample_doctors sample_state) = [''3'']"
proof -
  have h: "sortBy sample_state \<noteq> ''fees'' \<and> sortBy sample_state \<noteq> ''experience''"
    by (simp add: sample_state_def)
  have v: "map Doctor.id (filter (matchesAll sample_state) sample_doctors) = [''3'']"
    by code_simp
  show ?thesis
    using filteredDoctors_conjunction_stable [of sample_doctors sample_state] h v by simp
qed

text \<open>
  Claim C2, as amended. When the sort key is \<^verbatim>\<open>fees\<close> and the fee of every record of
  the view, that is of every record that passes the filters, parses as a number, the
  view is in ascending order of the parsed fees; when it is \<^verbatim>\<open>experience\<close> and the
  experience of every record of the view parses, the view is in descending order of the
  parsed experiences. Records that the filters remove may hold anything. The fees 500,
  200, 800 come out as 200, 500, 800 and the experiences 5, 20, 1 as 20, 5, 1.
\<close>

theorem filteredDoctors_sorted_by_key:
  "(sortBy st = ''fees'' \<and> allParse fees (filteredDoctors ds st) \<longrightarrow>
      orderedByFeeAscending (filteredDoctors ds st)) \<and>
   (sortBy st = ''experience'' \<and> allParse experience (filteredDoctors ds st) \<longrightarrow>
      orderedByExperienceDescending (filteredDoctors ds st)) \<and>
   map fees (filteredDoctors fee_doctors (sortState ''fees'')) = [''200'', ''500'', ''800''] \<and>
   map experience (filteredDoctors experience_doctors (sortState ''experience'')) =
     [''20'', ''5'', ''1'']"
proof (intro conjI impI)
  have view: "set (filteredDoctors ds st) = set (filter (matchesAll st) ds)"
    by (simp add: set_filteredDoctors)
  {
    assume a: "sortBy st = ''fees'' \<and> allParse fees (filteredDoctors ds st)"
    then have "allParse fees (filter (matchesAll st) ds)"
      using allParse_set [OF view] by simp
    then show "orderedByFeeAscending (filteredDoctors ds st)"
      unfolding filteredDoctors_def filters_compose using a fees_sorted by simp
  next
    assume a: "sortBy st = ''experience'' \<and> allParse experience (filteredDoctors ds st)"
    then have "allParse experience (filter (matchesAll st) ds)"
      using allParse_set [OF view] by simp
    then show "orderedByExperienceDescending (filteredDoctors ds st)"
      unfolding filteredDoctors_def filters_compose using a experience_sorted by simp
  }
next
  show "map fees (filteredDoctors fee_doctors (sortState ''fees'')) = [''200'', ''500'', ''800'']"
    by code_simp
next
  show "map experience (filteredDoctors experience_doctors (sortState ''experience'')) =
     [''20'', ''5'', ''1'']"
    by code_simp
qed

text \<open>
  The witness is a store whose first record has a fee and an experience that do not
  parse; the name filter removes it, and the two records of the view come out in order.
\<close>

theorem filteredDoctors_sorted_by_key_witness:
  "sortBy (dr_state ''fees'') = ''fees'' \<and>
   \<not> allParse fees mixed_doctors \<and>
   allParse fees (filteredDoctors mixed_doctors (dr_state ''fees'')) \<and>
   orderedByFeeAscending (filteredDoctors mixed_doctors (dr_state ''fees'')) \<and>
   map fees (filteredDoctors mixed_doctors (dr_state ''fees'')) = [''200'', ''500''] \<and>
   sortBy (dr_state ''experience'') = ''experience'' \<and>
   \<not> allParse experience mixed_doctors \<and>
   allParse experience (filteredDoctors mixed_doctors (dr_state ''experience'')) \<and>
   orderedByExperienceDescending (filteredDoctors mixed_doctors (dr_state ''experience'')) \<and>
   map experience (filteredDoctors mixed_doctors (dr_state ''experience'')) = [''9'', ''4'']"
proof -
  have f: "sortBy (dr_state ''fees'') = ''fees'' \<and>
           allParse fees (filteredDoctors mixed_doctors (dr_state ''fees''))"
    by code_simp
  have e: "sortBy (dr_state ''experience'') = ''experience'' \<and>
           allParse experience (filteredDoctors mixed_doctors (dr_state ''experience''))"
    by code_simp
  have n: "\<not> allParse fees mixed_doctors \<and> \<not> allParse experience mixed_doctors"
    by code_simp
  have v: "map fees (filteredDoctors mixed_doctors (dr_state ''fees'')) = [''200'', ''500''] \<and>
           map experience (filteredDoctors mixed_doctors (dr_state ''experience'')) =
             [''9'', ''4'']"
    by code_simp
  have "orderedByFeeAscending (filteredDoctors mixed_doctors (dr_state ''fees''))"
    using filteredDoctors_sorted_by_key [of "dr_state ''fees''" mixed_doctors] f by blast
  moreover have
    "orderedByExperienceDescending (filteredDoctors mixed_doctors (dr_state ''experience''))"
    using filteredDoctors_sorted_by_key [of "dr_state ''experience''" mixed_doctors] e by blast
  ultimately show ?thesis using f e n v by blast
qed

text \<open>
  The claim as it stands fails on a fee that does not parse: \<^verbatim>\<open>parseInt\<close> gives
  \<^verbatim>\<open>NaN\<close>, every comparison with it reads as \<open>+0\<close>, and the fees 5, abc, 3 stay as
  they are, 5 before 3.
\<close>

theorem filteredDoctors_unparsable_fee_counterexample:
  "sortBy (sortState ''fees'') = ''fees'' \<and>
   map (\<lambda>d. parseInt (fees d)) (filteredDoctors unparsable_fee_doctors (sortState ''fees'')) =
     [Some 5, None, Some 3] \<and>
   \<not> orderedByFeeAscending (filteredDoctors unparsable_fee_doctors (sortState ''fees''))"
  by code_simp

text \<open>
  Claim C3. For every record list and every query, the suggestions are the first five,
  or fewer, records in store order whose name contains the query without regard to
  case or one of whose specialties has such a name; there are never more than five; and
  the empty query has no suggestions.
\<close>

theorem suggestions_first_five:
  "suggestions ds q =
     (if q = [] then []
      else map toSuggestion (take 5 (filter (\<lambda>d. matchesSuggestion d q) ds))) \<and>
   length (suggestions ds q) \<le> 5 \<and>
   suggestions ds [] = []"
proof -
  have "(\<lambda>doctor. String_includes (toLowerCase (Doctor.name doctor)) (toLowerCase q) \<or>
                 list_ex (\<lambda>specialty.
                     String_includes (toLowerCase (Specialty.name specialty)) (toLowerCase q))
                   (Doctor.specialities doctor))
        = (\<lambda>d. matchesSuggestion d q)"
    by (rule ext)
      (simp add: matchesSuggestion_def matchesName_def String_includes_def list_ex_iff)
  then show ?thesis by (simp add: suggestions_def take_map)
qed

theorem suggestions_first_five_witness:
  "suggestions sample_doctors ''dr'' = map toSuggestion (take 5 sample_doctors) \<and>
   length (suggestions sample_doctors ''dr'') \<le> 5 \<and>
   map DoctorSuggestion.id (suggestions sample_doctors ''DENT'') = [''1'', ''3'', ''6'']"
proof -
  have a: "filter (\<lambda>d. matchesSuggestion d ''dr'') sample_doctors = sample_doctors"
    by code_simp
  have b: "map DoctorSuggestion.id (map toSuggestion
             (take 5 (filter (\<lambda>d. matchesSuggestion d ''DENT'') sample_doctors))) =
           [''1'', ''3'', ''6'']"
    by code_simp
  show ?thesis
    using suggestions_first_five [of sample_doctors "''dr''"]
      suggestions_first_five [of sample_doctors "''DENT''"] a b
    by simp
qed




text \<open>
  Claim C5, as amended. Hydration is total. An absent or empty \<^verbatim>\<open>name\<close>,
  \<^verbatim>\<open>consultationType\<close> or \<^verbatim>\<open>sortBy\<close> and an absent \<^verbatim>\<open>specialties\<close> give the
  default. Any other \<^verbatim>\<open>consultationType\<close> or \<^verbatim>\<open>sortBy\<close> is stored as it is, inside
  or outside the enumeration; a stored consultation type other than \<^verbatim>\<open>video\<close> and
  \<^verbatim>\<open>clinic\<close> filters the view as the unset one does, and a stored sort key other than
  \<^verbatim>\<open>fees\<close> and \<^verbatim>\<open>experience\<close> orders it as the unset one does.
\<close>

theorem hydrate_defaults_and_unrecognised:
  "(URLSearchParams_get ps ''name'' \<in> {None, Some []} \<longrightarrow> nameFilter (hydrate ps) = []) \<and>
   (URLSearchParams_get ps ''consultationType'' \<in> {None, Some []} \<longrightarrow>
      consultationType (hydrate ps) = []) \<and>
   (URLSearchParams_get ps ''specialties'' = None \<longrightarrow> selectedSpecialties (hydrate ps) = []) \<and>
   (URLSearchParams_get ps ''sortBy'' \<in> {None, Some []} \<longrightarrow> sortBy (hydrate ps) = []) \<and>
   (\<forall>v. URLSearchParams_get ps ''consultationType'' = Some v \<longrightarrow>
      consultationType (hydrate ps) = v) \<and>
   (\<forall>v. URLSearchParams_get ps ''sortBy'' = Some v \<longrightarrow> sortBy (hydrate ps) = v) \<and>
   (t \<noteq> ''video'' \<and> t \<noteq> ''clinic'' \<longrightarrow>
      filteredDoctors ds (st\<lparr>consultationType := t\<rparr>) =
      filteredDoctors ds (st\<lparr>consultationType := []\<rparr>)) \<and>
   (k \<noteq> ''fees'' \<and> k \<noteq> ''experience'' \<longrightarrow>
      filteredDoctors ds (st\<lparr>sortBy := k\<rparr>) = filteredDoctors ds (st\<lparr>sortBy := []\<rparr>))"
  by (auto simp: hydrate_def or_empty_def filteredDoctors_def applyConsultationType_def
      applySorting_def)

theorem hydrate_defaults_and_unrecognised_witness:
  "nameFilter (hydrate malformed_params) = [] \<and>
   selectedSpecialties (hydrate malformed_params) = [] \<and>
   consultationType (hydrate malformed_params) = ''phone'' \<and>
   sortBy (hydrate malformed_params) = ''rating'' \<and>
   filteredDoctors sample_doctors (sample_state\<lparr>consultationType := ''phone''\<rparr>) =
     filteredDoctors sample_doctors (sample_state\<lparr>consultationType := []\<rparr>) \<and>
   filteredDoctors sample_doctors (sample_state\<lparr>sortBy := ''rating''\<rparr>) =
     filteredDoctors sample_doctors (sample_state\<lparr>sortBy := []\<rparr>)"
  using hydrate_defaults_and_unrecognised
    [of malformed_params "''phone''" sample_doctors sample_state "''rating''"]
  by (simp add: malformed_params_def URLSearchParams_get_def)

text \<open>
  The claim as it stands fails on a query string with an unrecognised consultation type
  and sort key: the state holds them, not the defaults, and persistence writes them back.
\<close>

theorem hydrate_unrecognised_counterexample:
  "consultationType (hydrate malformed_params) = ''phone'' \<and>
   consultationType (hydrate malformed_params) \<noteq> [] \<and>
   sortBy (hydrate malformed_params) = ''rating'' \<and>
   sortBy (hydrate malformed_params) \<noteq> [] \<and>
   persist (hydrate malformed_params) = malformed_params"
  by (simp add: malformed_params_def hydrate_def URLSearchParams_get_def or_empty_def
      persist_def)

text \<open>
  Claim C6. For every filter state, the parameters that persistence writes are the name
  when it is not empty, the consultation type when it is set, the specialties joined by
  commas when there are any, and the sort key when it is set, in this order and nothing
  else.
\<close>

theorem persist_non_defaults:
  "persist st =
     (if nameFilter st \<noteq> [] then [(''name'', nameFilter st)] else []) @
     (if consultationType st \<noteq> [] then [(''consultationType'', consultationType st)] else []) @
     (if selectedSpecialties st \<noteq> []
      then [(''specialties'', join CHR '','' (selectedSpecialties st))] else []) @
     (if sortBy st \<noteq> [] then [(''sortBy'', sortBy st)] else [])"
  by (simp add: persist_def)

theorem persist_non_defaults_witness:
  "persist sample_state =
     [(''name'', ''RA''), (''consultationType'', ''clinic''), (''specialties'', ''ENT,Dentist'')] \<and>
   persist defaultState = []"
  using persist_non_defaults [of sample_state] persist_non_defaults [of defaultState]
  by (simp add: sample_state_def defaultState_def)

text \<open>
  Claim C7. The empty name query matches every record, the unset consultation type
  matches every record and the empty selection matches every record; each of the three
  filter steps at its default returns its input; the view under an empty selection is
  the view computed without the specialty step; and the view of the default state is
  the store.
\<close>

theorem default_filters_identity:
  "matchesName d [] \<and> matchesConsultationType d [] \<and> matchesSpecialties d [] \<and>
   applyNameFilter [] ds = ds \<and> applyConsultationType [] ds = ds \<and>
   applySpecialties [] ds = ds \<and>
   filteredDoctors ds (st\<lparr>selectedSpecialties := []\<rparr>) =
     applySorting (sortBy st)
       (applyConsultationType (consultationType st) (applyNameFilter (nameFilter st) ds)) \<and>
   filteredDoctors ds defaultState = ds"
  by (simp add: matchesName_def matchesConsultationType_def matchesSpecialties_def
      toLowerCase_Nil applyNameFilter_def applyConsultationType_def applySpecialties_def
      filteredDoctors_def applySorting_def defaultState_def)

theorem default_filters_identity_witness:
  "filteredDoctors sample_doctors defaultState = sample_doctors \<and>
   map Doctor.id (filteredDoctors sample_doctors (sample_state\<lparr>selectedSpecialties := []\<rparr>)) =
     [''3'', ''4'']"
proof -
  have "map Doctor.id (applySorting (sortBy sample_state)
          (applyConsultationType (consultationType sample_state)
            (applyNameFilter (nameFilter sample_state) sample_doctors))) = [''3'', ''4'']"
    by code_simp
  then show ?thesis
    using default_filters_identity [of "hd sample_doctors" sample_doctors sample_state]
    by simp
qed

text \<open>
  Claim C8. For every record list, filter state and specialty name, two clicks on the
  chip of that specialty leave the filtered view as it was, whether the specialty was
  selected before or not.
\<close>

theorem toggleSpecialty_twice_view:
  "filteredDoctors ds (toggleSpecialty s (toggleSpecialty s st)) = filteredDoctors ds st"
  unfolding filteredDoctors_def toggle_fields
  using applySpecialties_set [OF toggle_twice_set] by simp

theorem toggleSpecialty_twice_view_witness:
  "filteredDoctors sample_doctors (toggleSpecialty ''ENT'' (toggleSpecialty ''ENT'' sample_state)) =
     filteredDoctors sample_doctors sample_state \<and>
   filteredDoctors sample_doctors
     (toggleSpecialty ''Cardiologist'' (toggleSpecialty ''Cardiologist'' sample_state)) =
     filteredDoctors sample_doctors sample_state"
  using toggleSpecialty_twice_view [of sample_doctors "''ENT''" sample_state]
    toggleSpecialty_twice_view [of sample_doctors "''Cardiologist''" sample_state]
  by simp

text \<open>
  Claim C9. For every filter state and every query, the filtered view and the
  suggestions of the empty store are empty. Both are total functions: there is no
  error to raise.
\<close>

theorem empty_store_views:
  "filteredDoctors [] st = [] \<and> suggestions [] q = []"
proof
  have "mset (filteredDoctors [] st) = {#}"
    unfolding filteredDoctors_def filters_compose by (simp add: mset_applySorting)
  then show "filteredDoctors [] st = []" by simp
  show "suggestions [] q = []" by (simp add: suggestions_def)
qed

theorem empty_store_views_witness:
  "filteredDoctors [] (sample_state\<lparr>sortBy := ''fees''\<rparr>) = [] \<and> suggestions [] ''dr'' = []"
  using empty_store_views [of "sample_state\<lparr>sortBy := ''fees''\<rparr>" "''dr''"] by simp

text \<open>
  Claim C10. When the first \<^verbatim>\<open>specialties\<close> parameter of the query string is the
  empty string, hydration selects the one specialty named by the empty string, and
  every record of the filtered view has a specialty of that name.
\<close>

theorem hydrate_empty_specialties:
  assumes "URLSearchParams_get searchParams ''specialties'' = Some []"
  shows "selectedSpecialties (hydrate searchParams) = [''''] \<and>
         (\<forall>d \<in> set (filteredDoctors ds (hydrate searchParams)). hasSpecialtyNamed [] d)"
proof -
  have sel: "selectedSpecialties (hydrate searchParams) = ['''']"
    using assms by (simp add: hydrate_def)
  have "hasSpecialtyNamed [] d" if m: "matchesAll (hydrate searchParams) d" for d
    using m unfolding matchesAll_def matchesSpecialties_def sel hasSpecialtyNamed_def
    by force
  then show ?thesis using sel by (simp add: set_filteredDoctors)
qed

theorem hydrate_empty_specialties_witness:
  "URLSearchParams_get [(''specialties'', [])] ''specialties'' = Some [] \<and>
   selectedSpecialties (hydrate [(''specialties'', [])]) = [''''] \<and>
   list_all (hasSpecialtyNamed [])
     (filteredDoctors sample_doctors (hydrate [(''specialties'', [])])) \<and>
   map Doctor.id (filteredDoctors sample_doctors (hydrate [(''specialties'', [])])) = [''4'']"
proof -
  have h: "URLSearchParams_get [(''specialties'', [])] ''specialties'' = Some []"
    by (simp add: URLSearchParams_get_def)
  have v: "map Doctor.id (filteredDoctors sample_doctors (hydrate [(''specialties'', [])])) =
           [''4'']"
    by code_simp
  show ?thesis
    using h v hydrate_empty_specialties [OF h, of sample_doctors]
    by (simp add: list_all_iff)
qed

end
